theory Spec2Isabelle
  imports Main "HOL-Library.Sublist" "HOL-Library.Word"
begin

unbundle bit_operations_syntax

section \<open>Values of the host language\<close>

text \<open>
  A JavaScript \<open>number\<close> as far as the configuration uses it: a finite whole value or
  \<open>NaN\<close>. The logical-or operator \<open>a || b\<close> yields \<open>b\<close> when \<open>a\<close> is falsy
  (\<open>undefined\<close>, \<open>0\<close>, \<open>NaN\<close>, the empty string); the nullish operator \<open>a ?? b\<close>
  yields \<open>b\<close> only when \<open>a\<close> is \<open>undefined\<close> or \<open>null\<close>. An optional property that the
  caller omits is \<open>None\<close>.
\<close>

datatype number = Num int | NaN

fun truthy_number :: "number \<Rightarrow> bool" where
  "truthy_number (Num n) = (n \<noteq> 0)"
| "truthy_number NaN = False"

definition or_number :: "number option \<Rightarrow> number \<Rightarrow> number" where
  "or_number a b = (case a of None \<Rightarrow> b | Some n \<Rightarrow> if truthy_number n then n else b)"

definition or_string :: "string option \<Rightarrow> string \<Rightarrow> string" where
  "or_string a b = (case a of None \<Rightarrow> b | Some s \<Rightarrow> if s \<noteq> [] then s else b)"

definition nullish :: "'a option \<Rightarrow> 'a \<Rightarrow> 'a" where
  "nullish a b = (case a of None \<Rightarrow> b | Some v \<Rightarrow> v)"

datatype error = TypeError

section \<open>Configuration (sdk.ts, \<open>stripeSdk\<close>)\<close>

text \<open>
  \<open>StripeSDKConfig\<close> is what the caller passes; \<open>ContextConfig\<close> is the inner \<open>config\<close>
  object handed to interceptors; \<open>SdkBuilderConfig\<close> is what \<open>stripeSdk\<close> passes to
  \<open>sdkBuilder\<close>. The cache provider is opaque (\<open>'c\<close>); a response transformer acts on the
  response data (\<open>'d\<close>).
\<close>

record ('c, 'd) StripeSDKConfig =
  apiKey :: string
  endpoint :: "string option"
  timeout :: "number option"
  maxRetries :: "number option"
  apiVersion :: "string option"
  cacheProvider :: "'c option"
  customResponseTransformer :: "('d \<Rightarrow> 'd) option"

record ContextConfig =
  ctx_apiKey :: string
  ctx_timeout :: number
  ctx_endpoint :: string
  ctx_apiVersion :: string

record ('c, 'd) SdkBuilderConfig =
  baseUrl :: string
  sdk_cacheProvider :: "'c option"
  sdk_maxRetries :: number
  config :: ContextConfig
  sdk_customResponseTransformer :: "'d \<Rightarrow> 'd"
  validateStatus :: "int \<Rightarrow> bool"

definition defaultEndpoint :: string where
  "defaultEndpoint = ''https://api.stripe.com''"

definition defaultApiVersion :: string where
  "defaultApiVersion = ''2025-04-30.basil''"

text \<open>The module's default transformer logs and returns the response data as it is.\<close>

definition default_customResponseTransformer :: "'d \<Rightarrow> 'd" where
  "default_customResponseTransformer responseData = responseData"

text \<open>The object literal \<open>sdkConfig\<close> that \<open>stripeSdk\<close> builds (sdk.ts lines 64-78).\<close>

definition sdkConfig :: "('c, 'd) StripeSDKConfig \<Rightarrow> ('c, 'd) SdkBuilderConfig" where
  "sdkConfig cfg =
     \<lparr> baseUrl = or_string (endpoint cfg) defaultEndpoint,
       sdk_cacheProvider = cacheProvider cfg,
       sdk_maxRetries = nullish (maxRetries cfg) (Num 0),
       config =
         \<lparr> ctx_apiKey = apiKey cfg,
           ctx_timeout = or_number (timeout cfg) (Num 10000),
           ctx_endpoint = or_string (endpoint cfg) defaultEndpoint,
           ctx_apiVersion = or_string (apiVersion cfg) defaultApiVersion \<rparr>,
       sdk_customResponseTransformer =
         (case customResponseTransformer cfg of
            None \<Rightarrow> default_customResponseTransformer
          | Some f \<Rightarrow> f),
       validateStatus = (\<lambda>status. status \<ge> 200 \<and> status < 500) \<rparr>"

section \<open>Idempotency token (sdk.ts, \<open>createRequestId\<close>)\<close>

text \<open>
  Modelled from the spec: \<open>randomUUID\<close> is imported from the platform's \<open>crypto\<close> module
  and is not among the repository's sources. The spec's token is a version-4 UUID without its separators, so
  the generator is modelled as RFC 9562 describes version 4: the 128 bits it draws are its
  argument here; it overwrites the version nibble with 4 and the two variant bits with
  binary 10, and prints the 32 nibbles in lowercase hexadecimal, grouped 8-4-4-4-12 with
  hyphens.
\<close>

definition hex_digit :: "nat \<Rightarrow> char" where
  "hex_digit n = ''0123456789abcdef'' ! (n mod 16)"

definition uuid_nibble :: "128 word \<Rightarrow> nat \<Rightarrow> nat" where
  "uuid_nibble w i =
     (if i = 12 then 4
      else if i = 16 then 8 + unat (drop_bit (4 * (31 - i)) w AND 3)
      else unat (drop_bit (4 * (31 - i)) w AND 15))"

definition uuid_hex :: "128 word \<Rightarrow> string" where
  "uuid_hex w = map (\<lambda>i. hex_digit (uuid_nibble w i)) [0..<32]"

definition randomUUID :: "128 word \<Rightarrow> string" where
  "randomUUID w =
     (let h = uuid_hex w
      in take 8 h @ ''-'' @ take 4 (drop 8 h) @ ''-'' @ take 4 (drop 12 h) @ ''-''
         @ take 4 (drop 16 h) @ ''-'' @ drop 20 h)"

text \<open>
  \<open>createRequestId\<close> calls \<open>randomUUID()\<close> and deletes every hyphen
  (\<open>.replace(/-/g, '')\<close>). The bits drawn by that call are the argument.
\<close>

definition createRequestId :: "128 word \<Rightarrow> string" where
  "createRequestId w = filter (\<lambda>c. c \<noteq> CHR ''-'') (randomUUID w)"

section \<open>Request-phase interceptor (sdk.ts, \<open>reqInterceptor\<close>)\<close>

text \<open>
  The request options: the fields the interceptor reads or writes, and every other field
  in the record's extension. A property that is not set is \<open>None\<close>.
\<close>

record options =
  path :: "string option"
  headers :: "(string \<rightharpoonup> string) option"
  contentType :: "string option"

definition isV2Endpoint :: "string \<Rightarrow> bool" where
  "isV2Endpoint p = prefix ''/v2/'' p"

text \<open>Spreading \<open>undefined\<close> into an object literal adds nothing.\<close>

definition spread :: "(string \<rightharpoonup> string) option \<Rightarrow> (string \<rightharpoonup> string)" where
  "spread h = (case h of None \<Rightarrow> Map.empty | Some m \<Rightarrow> m)"

text \<open>
  The interceptor of sdk.ts lines 85-104. The request id is drawn first; then
  \<open>isV2Endpoint(options.path)\<close> calls \<open>startsWith\<close> on the path, which raises a
  \<open>TypeError\<close> when the path is \<open>undefined\<close> (so also when \<open>options\<close> is omitted and
  defaults to \<open>{}\<close>), before anything is written. Otherwise the headers are rebuilt (the
  caller's entries first, the three fixed entries after them) and the content type is set.
\<close>

definition reqInterceptor ::
  "ContextConfig \<Rightarrow> 128 word \<Rightarrow> 'a options_scheme option \<Rightarrow> error + 'a options_scheme" where
  "reqInterceptor cfg rnd opts =
     (let requestId = createRequestId rnd
      in case opts of
           None \<Rightarrow> Inl TypeError
         | Some options \<Rightarrow>
             (case path options of
                None \<Rightarrow> Inl TypeError
              | Some p \<Rightarrow>
                  let isV2 = isV2Endpoint p;
                      options1 = options\<lparr>headers :=
                        Some ((spread (headers options))
                          (''Authorization'' \<mapsto> ''Bearer '' @ ctx_apiKey cfg,
                           ''Stripe-Version'' \<mapsto> or_string (Some (ctx_apiVersion cfg)) defaultApiVersion,
                           ''Idempotency-Key'' \<mapsto> requestId))\<rparr>
                  in Inr (if isV2
                          then options1\<lparr>contentType := Some ''application/json''\<rparr>
                          else options1\<lparr>contentType := Some ''application/x-www-form-urlencoded''\<rparr>)))"

text \<open>Reading one header of the options; an options object without headers has none.\<close>

definition header :: "'a options_scheme \<Rightarrow> string \<Rightarrow> string option" where
  "header options name = spread (headers options) name"

text \<open>
  An earlier revision of the same interceptor is also in the repository. It receives the
  resolved URL as a third argument and tests that instead of \<open>options.path\<close>, its
  default version differs, and it writes the content type into the \<open>Content-Type\<close>
  header instead of the \<open>contentType\<close> field. An omitted \<open>options\<close> is the empty
  object there, which this model takes as given.
\<close>

definition defaultApiVersion_prev :: string where
  "defaultApiVersion_prev = ''2025-02-24.acacia''"

definition reqInterceptor_url ::
  "ContextConfig \<Rightarrow> 128 word \<Rightarrow> 'a options_scheme \<Rightarrow> string option \<Rightarrow> error + 'a options_scheme" where
  "reqInterceptor_url cfg rnd options url =
     (let requestId = createRequestId rnd
      in case url of
           None \<Rightarrow> Inl TypeError
         | Some u \<Rightarrow>
             let isV2 = isV2Endpoint u;
                 hs = (spread (headers options))
                        (''Authorization'' \<mapsto> ''Bearer '' @ ctx_apiKey cfg,
                         ''Stripe-Version'' \<mapsto>
                            or_string (Some (ctx_apiVersion cfg)) defaultApiVersion_prev,
                         ''Idempotency-Key'' \<mapsto> requestId)
             in Inr (if isV2
                     then options\<lparr>headers := Some (hs(''Content-Type'' \<mapsto> ''application/json''))\<rparr>
                     else options\<lparr>headers :=
                            Some (hs(''Content-Type'' \<mapsto> ''application/x-www-form-urlencoded''))\<rparr>))"

section \<open>Pagination helper (sdk.ts, \<open>extractPageToken\<close>)\<close>

text \<open>
  \<open>extractPageToken\<close> relies on the platform's \<open>URL\<close> class: \<open>new URL(url)\<close>, which throws a
  \<open>TypeError\<close> on a string it cannot parse, and \<open>searchParams.get\<close>. They are its first two
  arguments here. A falsy \<open>url\<close> (\<open>null\<close>, absent, or the empty string) returns \<open>null\<close> at
  once; the \<open>try\<close> block turns a throwing constructor into \<open>null\<close>. The result is a sum so
  that an exception leaving the function would show as \<open>Inl\<close>.
\<close>

definition extractPageToken ::
  "(string \<Rightarrow> error + 'u) \<Rightarrow> ('u \<Rightarrow> string \<Rightarrow> string option) \<Rightarrow> string option
     \<Rightarrow> error + string option" where
  "extractPageToken URL_constructor searchParams_get_of url =
     (case url of
        None \<Rightarrow> Inr None
      | Some s \<Rightarrow>
          if s = [] then Inr None
          else (case URL_constructor s of
                  Inr parsedUrl \<Rightarrow> Inr (searchParams_get_of parsedUrl ''page_token'')
                | Inl e \<Rightarrow> Inr None))"

subsection \<open>The platform's URL parser\<close>

text \<open>
  Modelled from the spec: the \<open>URL\<close> class is the platform's and is not among the repository's
  sources; the spec
  only asks that a malformed URL and a missing parameter give no token, so the parser is
  modelled after the URL standard that the platform implements, on strings of ASCII
  characters. It follows the standard for: trimming; the scheme (without one, parsing fails,
  as no base URL is given); the authority of the schemes http, https, ws, wss and ftp and of
  any other scheme followed by two slashes, with its credentials, host and port; the query
  and the fragment. Of the host parser it follows the empty-host and forbidden-code-point
  checks; the inside of an IPv6 literal, IPv4 numbers, punycode labels, hosts outside ASCII
  and the host of a file URL are accepted unchecked.
\<close>

definition is_c0_or_space :: "char \<Rightarrow> bool" where
  "is_c0_or_space c = ((of_char c :: nat) \<le> 32)"

definition is_tab_or_newline :: "char \<Rightarrow> bool" where
  "is_tab_or_newline c = ((of_char c :: nat) \<in> {9, 10, 13})"

definition ascii_alpha :: "char \<Rightarrow> bool" where
  "ascii_alpha c = (let n = (of_char c :: nat) in (65 \<le> n \<and> n \<le> 90) \<or> (97 \<le> n \<and> n \<le> 122))"

definition ascii_digit :: "char \<Rightarrow> bool" where
  "ascii_digit c = (let n = (of_char c :: nat) in 48 \<le> n \<and> n \<le> 57)"

definition ascii_lower :: "char \<Rightarrow> char" where
  "ascii_lower c = (let n = (of_char c :: nat) in if 65 \<le> n \<and> n \<le> 90 then char_of (n + 32) else c)"

definition ascii_hex :: "char \<Rightarrow> bool" where
  "ascii_hex c = (let n = (of_char c :: nat)
     in (48 \<le> n \<and> n \<le> 57) \<or> (65 \<le> n \<and> n \<le> 70) \<or> (97 \<le> n \<and> n \<le> 102))"

definition hex_value :: "char \<Rightarrow> nat" where
  "hex_value c = (let n = (of_char c :: nat)
     in if n \<le> 57 then n - 48 else if n \<le> 70 then n - 55 else n - 87)"

fun percent_decode :: "string \<Rightarrow> string" where
  "percent_decode (c # h # l # cs) =
     (if c = CHR ''%'' \<and> ascii_hex h \<and> ascii_hex l
      then char_of (16 * hex_value h + hex_value l) # percent_decode cs
      else c # percent_decode (h # l # cs))"
| "percent_decode cs = cs"

definition url_trim :: "string \<Rightarrow> string" where
  "url_trim s =
     filter (\<lambda>c. \<not> is_tab_or_newline c)
       (rev (dropWhile is_c0_or_space (rev (dropWhile is_c0_or_space s))))"

definition scheme_char :: "char \<Rightarrow> bool" where
  "scheme_char c = (ascii_alpha c \<or> ascii_digit c \<or> c \<in> set ''+-.'')"

definition parse_scheme :: "string \<Rightarrow> (string \<times> string) option" where
  "parse_scheme s =
     (case s of
        [] \<Rightarrow> None
      | c # cs \<Rightarrow>
          if ascii_alpha c
          then (case dropWhile scheme_char cs of
                  [] \<Rightarrow> None
                | d # r \<Rightarrow> if d = CHR '':'' then Some (map ascii_lower (c # takeWhile scheme_char cs), r)
                           else None)
          else None)"

text \<open>The part before the first occurrence of a character, and the part after it if any.\<close>

definition cut :: "char \<Rightarrow> string \<Rightarrow> string \<times> string option" where
  "cut d s = (takeWhile (\<lambda>c. c \<noteq> d) s,
              case dropWhile (\<lambda>c. c \<noteq> d) s of [] \<Rightarrow> None | _ # r \<Rightarrow> Some r)"

text \<open>
  The forbidden host code points: NUL, tab, line feed, carriage return, space and
  \<^verbatim>\<open># / : < > ? @ [ \ ] ^ |\<close>, by their codes; a domain must not hold a control
  character, a percent sign or DEL either.
\<close>

definition forbidden_host :: "char \<Rightarrow> bool" where
  "forbidden_host c =
     ((of_char c :: nat) \<in> {0, 9, 10, 13, 32, 35, 47, 58, 60, 62, 63, 64, 91, 92, 93, 94, 124})"

definition forbidden_domain :: "char \<Rightarrow> bool" where
  "forbidden_domain c =
     (forbidden_host c \<or> (of_char c :: nat) < 32 \<or> c = CHR ''%'' \<or> (of_char c :: nat) = 127)"

text \<open>Host and port of an authority: the first colon outside brackets separates them.\<close>

fun split_host :: "bool \<Rightarrow> string \<Rightarrow> string \<times> string option" where
  "split_host inside [] = ([], None)"
| "split_host inside (c # cs) =
     (if c = CHR '':'' \<and> \<not> inside then ([], Some cs)
      else (case split_host (if c = CHR ''['' then True else if c = CHR '']'' then False else inside) cs
            of (h, p) \<Rightarrow> (c # h, p)))"

definition decimal :: "string \<Rightarrow> nat" where
  "decimal ds = foldl (\<lambda>n c. 10 * n + ((of_char c :: nat) - 48)) 0 ds"

definition port_ok :: "string option \<Rightarrow> bool" where
  "port_ok p = (case p of None \<Rightarrow> True | Some ds \<Rightarrow> list_all ascii_digit ds \<and> decimal ds \<le> 65535)"

definition host_ok :: "bool \<Rightarrow> string \<Rightarrow> bool" where
  "host_ok special h =
     (case h of
        [] \<Rightarrow> \<not> special
      | c # cs \<Rightarrow>
          if c = CHR ''['' then last h = CHR '']''
          else if special then list_all (\<lambda>c. \<not> forbidden_domain c) (percent_decode h)
          else list_all (\<lambda>c. \<not> forbidden_host c) h)"

text \<open>
  The authority is read up to the next slash (a backslash too, for a special scheme); the
  host and port follow its last \<open>@\<close>. An empty host is an error after credentials, before a
  port, and for a special scheme.
\<close>

definition authority_ok :: "bool \<Rightarrow> string \<Rightarrow> bool" where
  "authority_ok special s =
     (let a = takeWhile (\<lambda>c. c \<noteq> CHR ''/'' \<and> \<not> (special \<and> c = CHR 0x5C)) s;
          hp = rev (takeWhile (\<lambda>c. c \<noteq> CHR ''@'') (rev a))
      in \<not> (CHR ''@'' \<in> set a \<and> hp = []) \<and>
         (case split_host False hp of
            (h, p) \<Rightarrow> \<not> (p \<noteq> None \<and> h = []) \<and> host_ok special h \<and> port_ok p))"

definition special_scheme :: "string \<Rightarrow> bool" where
  "special_scheme sc = (sc \<in> set [''http'', ''https'', ''ws'', ''wss'', ''ftp''])"

record URL =
  scheme :: string
  rest :: string
  query :: "string option"
  fragment :: "string option"

definition URL_new :: "string \<Rightarrow> error + URL" where
  "URL_new input =
     (case parse_scheme (url_trim input) of
        None \<Rightarrow> Inl TypeError
      | Some (sc, r) \<Rightarrow>
          (case cut (CHR ''#'') r of
             (r1, frag) \<Rightarrow>
               (case cut (CHR ''?'') r1 of
                  (r2, q) \<Rightarrow>
                    if (if special_scheme sc
                        then authority_ok True
                               (dropWhile (\<lambda>c. c = CHR ''/'' \<or> c = CHR 0x5C) r2)
                        else if sc \<noteq> ''file'' \<and> prefix ''//'' r2
                        then authority_ok False (drop 2 r2)
                        else True)
                    then Inr \<lparr> scheme = sc, rest = r2, query = q, fragment = frag \<rparr>
                    else Inl TypeError)))"

text \<open>
  \<open>searchParams\<close> parses the query as a form-urlencoded string: pairs separated by \<open>&\<close>,
  empty pairs skipped, name and value separated by the first \<open>=\<close>, \<open>+\<close> read as a
  space, percent escapes decoded. \<open>get\<close> returns the value of the first pair with the given
  name, or \<open>null\<close>.
\<close>

fun split_on :: "char \<Rightarrow> string \<Rightarrow> string list" where
  "split_on d [] = [[]]"
| "split_on d (c # cs) =
     (if c = d then [] # split_on d cs
      else (case split_on d cs of [] \<Rightarrow> [[c]] | x # xs \<Rightarrow> (c # x) # xs))"

definition plus_to_space :: "string \<Rightarrow> string" where
  "plus_to_space s = map (\<lambda>c. if c = CHR ''+'' then CHR '' '' else c) s"

definition parse_pair :: "string \<Rightarrow> string \<times> string" where
  "parse_pair s =
     (percent_decode (plus_to_space (takeWhile (\<lambda>c. c \<noteq> CHR ''='') s)),
      percent_decode (plus_to_space (drop 1 (dropWhile (\<lambda>c. c \<noteq> CHR ''='') s))))"

definition urlencoded_parse :: "string \<Rightarrow> (string \<times> string) list" where
  "urlencoded_parse q = map parse_pair (filter (\<lambda>s. s \<noteq> []) (split_on (CHR ''&'') q))"

definition searchParams_get :: "URL \<Rightarrow> string \<Rightarrow> string option" where
  "searchParams_get u name =
     map_of (urlencoded_parse (case query u of None \<Rightarrow> [] | Some q \<Rightarrow> q)) name"

section \<open>Dispatcher\<close>

text \<open>
  Modelled from the spec: the dispatcher with its retry loop is part of the \<open>sdkBuilder\<close>
  engine, which sdk.ts imports from a package; it is not among the repository's sources. The spec gives it as a
  state machine per invocation, \<open>PREPARED \<rightarrow> SENT \<rightarrow> (SUCCEEDED | RETRYING \<rightarrow> SENT | FAILED)\<close>:
  a call that does not complete before the timeout, and a transport failure, are retryable
  failures; a response whose status satisfies the \<open>validateStatus\<close> predicate is delivered
  (\<open>SENT \<rightarrow> SUCCEEDED\<close>); \<open>SENT \<rightarrow> RETRYING\<close> happens only when the attempt count is below
  \<open>maxRetries\<close> and the failure is retryable, after a delay of
  \<open>baseDelay * multiplier^(attempt-1)\<close>, and increments the attempt count;
  \<open>SENT \<rightarrow> FAILED\<close> happens when the attempts are exhausted or the failure is not retryable,
  and the terminal error carries the last response if there is one.

  The attempt count is the number of retries made so far: with \<open>maxRetries = 2\<close> the spec
  requires three transport calls when the first two fail. The transport is the environment:
  it gives the outcome of the k-th call of the invocation, counted from 0.
\<close>

datatype 'b outcome = Response int 'b | TransportFailure | TimedOut

record RetryPolicy =
  rp_maxRetries :: nat
  baseDelay :: nat
  multiplier :: nat
  retryableStatusPredicate :: "int \<Rightarrow> bool"

datatype 'b terminal = SUCCEEDED int 'b | FAILED "(int \<times> 'b) option"

record 'b invocation =
  final :: "'b terminal"
  transport_calls :: nat
  delays :: "nat list"

definition retryable :: "RetryPolicy \<Rightarrow> 'b outcome \<Rightarrow> bool" where
  "retryable pol r =
     (case r of Response status body \<Rightarrow> retryableStatusPredicate pol status
      | TransportFailure \<Rightarrow> True
      | TimedOut \<Rightarrow> True)"

definition last_response :: "'b outcome \<Rightarrow> (int \<times> 'b) option" where
  "last_response r = (case r of Response status body \<Rightarrow> Some (status, body) | _ \<Rightarrow> None)"

definition delivered :: "(int \<Rightarrow> bool) \<Rightarrow> 'b outcome \<Rightarrow> bool" where
  "delivered valid r = (case r of Response status body \<Rightarrow> valid status | _ \<Rightarrow> False)"

function sent ::
  "RetryPolicy \<Rightarrow> (int \<Rightarrow> bool) \<Rightarrow> (nat \<Rightarrow> 'b outcome) \<Rightarrow> nat \<Rightarrow> 'b invocation" where
  "sent pol valid transport attempt =
     (case transport attempt of
        Response status body \<Rightarrow>
          if valid status
          then \<lparr> final = SUCCEEDED status body, transport_calls = attempt + 1, delays = [] \<rparr>
          else if attempt < rp_maxRetries pol \<and> retryable pol (transport attempt)
          then (let r = sent pol valid transport (attempt + 1)
                in r\<lparr> delays := baseDelay pol * multiplier pol ^ attempt # delays r \<rparr>)
          else \<lparr> final = FAILED (Some (status, body)), transport_calls = attempt + 1,
                 delays = [] \<rparr>
      | _ \<Rightarrow>
          if attempt < rp_maxRetries pol \<and> retryable pol (transport attempt)
          then (let r = sent pol valid transport (attempt + 1)
                in r\<lparr> delays := baseDelay pol * multiplier pol ^ attempt # delays r \<rparr>)
          else \<lparr> final = FAILED None, transport_calls = attempt + 1, delays = [] \<rparr>)"
  by pat_completeness auto
termination
  by (relation "measure (\<lambda>(pol, valid, transport, attempt). rp_maxRetries pol - attempt)") auto

definition dispatch :: "RetryPolicy \<Rightarrow> (int \<Rightarrow> bool) \<Rightarrow> (nat \<Rightarrow> 'b outcome) \<Rightarrow> 'b invocation" where
  "dispatch pol valid transport = sent pol valid transport 0"

definition is_FAILED :: "'b terminal \<Rightarrow> bool" where
  "is_FAILED t = (case t of FAILED r \<Rightarrow> True | SUCCEEDED status body \<Rightarrow> False)"

section \<open>Concrete inputs used below\<close>

definition example_config :: "(unit, unit) StripeSDKConfig" where
  "example_config =
     \<lparr> apiKey = ''sk_test_mockApiKey'', endpoint = None, timeout = None, maxRetries = None,
       apiVersion = Some ''2023-10-16'', cacheProvider = None,
       customResponseTransformer = None \<rparr>"

definition example_options :: options where
  "example_options =
     \<lparr> path = Some ''/v2/core/events'',
       headers = Some [''Idempotency-Key'' \<mapsto> ''caller-key'', ''X-Trace'' \<mapsto> ''t1''],
       contentType = None \<rparr>"

section \<open>Properties\<close>

subsection \<open>The interceptor\<close>

lemma reqInterceptor_Some:
  "path options = Some p \<Longrightarrow>
   reqInterceptor cfg rnd (Some options) =
     Inr (options\<lparr>headers :=
            Some ((spread (headers options))
              (''Authorization'' \<mapsto> ''Bearer '' @ ctx_apiKey cfg,
               ''Stripe-Version'' \<mapsto> or_string (Some (ctx_apiVersion cfg)) defaultApiVersion,
               ''Idempotency-Key'' \<mapsto> createRequestId rnd)),
          contentType := Some (if isV2Endpoint p then ''application/json''
                               else ''application/x-www-form-urlencoded'')\<rparr>)"
  by (simp add: reqInterceptor_def Let_def)

lemma reqInterceptor_url_Some:
  "reqInterceptor_url cfg rnd options (Some u) =
     Inr (options\<lparr>headers :=
            Some ((spread (headers options))
              (''Authorization'' \<mapsto> ''Bearer '' @ ctx_apiKey cfg,
               ''Stripe-Version'' \<mapsto> or_string (Some (ctx_apiVersion cfg)) defaultApiVersion_prev,
               ''Idempotency-Key'' \<mapsto> createRequestId rnd,
               ''Content-Type'' \<mapsto> (if isV2Endpoint u then ''application/json''
                                     else ''application/x-www-form-urlencoded'')))\<rparr>)"
  by (simp add: reqInterceptor_url_def Let_def)

lemma example_path: "path example_options = Some ''/v2/core/events''"
  by (simp add: example_options_def)

text \<open>
  C1. Whenever the options carry a resolved path, the interceptor returns, and the content
  type of the returned options is \<open>application/json\<close> if the path starts with \<open>/v2/\<close> and
  \<open>application/x-www-form-urlencoded\<close> otherwise. The earlier revision decides in the same
  way on the resolved URL it is given and records the choice as the \<open>Content-Type\<close> header.
\<close>

theorem reqInterceptor_contentType_by_prefix:
  assumes "path options = Some p"
  shows "(\<exists>options'. reqInterceptor cfg rnd (Some options) = Inr options' \<and>
           contentType options' =
             Some (if prefix ''/v2/'' p then ''application/json''
                   else ''application/x-www-form-urlencoded'')) \<and>
         (\<exists>options'. reqInterceptor_url cfg rnd options (Some p) = Inr options' \<and>
           header options' ''Content-Type'' =
             Some (if prefix ''/v2/'' p then ''application/json''
                   else ''application/x-www-form-urlencoded''))"
  using assms
  by (simp add: reqInterceptor_Some reqInterceptor_url_Some isV2Endpoint_def header_def
      spread_def)

theorem reqInterceptor_contentType_by_prefix_witness:
  "path example_options = Some ''/v2/core/events'' \<and>
   (\<exists>options'. reqInterceptor (config (sdkConfig example_config)) 0 (Some example_options)
        = Inr options' \<and>
      contentType options' = Some ''application/json'') \<and>
   (\<exists>options'. reqInterceptor_url (config (sdkConfig example_config)) 0 example_options
        (Some ''/v2/core/events'') = Inr options' \<and>
      header options' ''Content-Type'' = Some ''application/json'')"
  using reqInterceptor_contentType_by_prefix
    [OF example_path, of "config (sdkConfig example_config)" 0]
  by (simp add: example_path)

lemma header_reqInterceptor:
  assumes "path options = Some p"
  shows "\<exists>options'. reqInterceptor cfg rnd (Some options) = Inr options' \<and>
           header options' =
             (header options)
               (''Authorization'' \<mapsto> ''Bearer '' @ ctx_apiKey cfg,
                ''Stripe-Version'' \<mapsto> or_string (Some (ctx_apiVersion cfg)) defaultApiVersion,
                ''Idempotency-Key'' \<mapsto> createRequestId rnd)"
  using assms by (simp add: reqInterceptor_Some header_def spread_def fun_eq_iff)

lemma example_token: "createRequestId 0 = ''00000000000040008000000000000000''"
  by code_simp

text \<open>
  C3, as stated, fails: a caller's \<open>Idempotency-Key\<close> header does not survive. On the
  example options, which carry the key \<open>caller-key\<close>, the interceptor returns options whose
  key is the generated token.
\<close>

theorem reqInterceptor_caller_key_counterexample:
  "header example_options ''Idempotency-Key'' = Some ''caller-key'' \<and>
   \<not> isl (reqInterceptor (config (sdkConfig example_config)) 0 (Some example_options)) \<and>
   header (projr (reqInterceptor (config (sdkConfig example_config)) 0 (Some example_options)))
     ''Idempotency-Key'' = Some ''00000000000040008000000000000000''"
  using header_reqInterceptor [OF example_path, of "config (sdkConfig example_config)" 0]
  by (auto simp: example_token) (simp add: header_def spread_def example_options_def)

text \<open>
  C3 as amended: whatever headers the caller supplied, the \<open>Idempotency-Key\<close> of the returned
  options is the token generated in this call; the three fixed entries are written after the
  caller's entries and replace them.
\<close>

theorem reqInterceptor_idempotency_key_generated:
  assumes "path options = Some p"
  shows "\<exists>options'. reqInterceptor cfg rnd (Some options) = Inr options' \<and>
           header options' ''Idempotency-Key'' = Some (createRequestId rnd)"
  using header_reqInterceptor [OF assms, of cfg rnd] by auto

theorem reqInterceptor_idempotency_key_generated_witness:
  "path example_options = Some ''/v2/core/events'' \<and>
   (\<exists>options'. reqInterceptor (config (sdkConfig example_config)) 0 (Some example_options)
        = Inr options' \<and>
      header options' ''Idempotency-Key'' = Some ''00000000000040008000000000000000'')"
  using reqInterceptor_idempotency_key_generated
    [OF example_path, of "config (sdkConfig example_config)" 0]
  by (simp add: example_path example_token)

text \<open>
  C4. Whenever the interceptor returns (the options carry a path), the returned headers hold
  \<open>Authorization\<close> = \<open>Bearer\<close> followed by the configured key, \<open>Stripe-Version\<close> = the
  configured version, or the default version when that is empty, and an \<open>Idempotency-Key\<close>.
  With the context that \<open>stripeSdk\<close> builds from the caller's configuration, the key is the
  caller's \<open>apiKey\<close> and the version is the caller's \<open>apiVersion\<close>, or the default when it is
  omitted or empty.
\<close>

theorem reqInterceptor_sets_headers:
  assumes "path options = Some p"
  shows "(\<exists>options'. reqInterceptor cfg rnd (Some options) = Inr options' \<and>
           header options' ''Authorization'' = Some (''Bearer '' @ ctx_apiKey cfg) \<and>
           header options' ''Stripe-Version'' =
             Some (if ctx_apiVersion cfg = [] then defaultApiVersion else ctx_apiVersion cfg) \<and>
           header options' ''Idempotency-Key'' \<noteq> None) \<and>
         (\<exists>options'. reqInterceptor (config (sdkConfig c)) rnd (Some options) = Inr options' \<and>
           header options' ''Authorization'' = Some (''Bearer '' @ apiKey c) \<and>
           header options' ''Stripe-Version'' =
             Some (case apiVersion c of None \<Rightarrow> defaultApiVersion
                   | Some v \<Rightarrow> if v = [] then defaultApiVersion else v) \<and>
           header options' ''Idempotency-Key'' \<noteq> None)"
proof
  from header_reqInterceptor [OF assms, of cfg rnd]
  show "\<exists>options'. reqInterceptor cfg rnd (Some options) = Inr options' \<and>
           header options' ''Authorization'' = Some (''Bearer '' @ ctx_apiKey cfg) \<and>
           header options' ''Stripe-Version'' =
             Some (if ctx_apiVersion cfg = [] then defaultApiVersion else ctx_apiVersion cfg) \<and>
           header options' ''Idempotency-Key'' \<noteq> None"
    by (auto simp: or_string_def)
next
  have v: "or_string (Some (ctx_apiVersion (config (sdkConfig c)))) defaultApiVersion =
        (case apiVersion c of None \<Rightarrow> defaultApiVersion
         | Some v \<Rightarrow> if v = [] then defaultApiVersion else v)"
    by (simp add: sdkConfig_def or_string_def defaultApiVersion_def split: option.split)
  have k: "ctx_apiKey (config (sdkConfig c)) = apiKey c"
    by (simp add: sdkConfig_def)
  from header_reqInterceptor [OF assms, of "config (sdkConfig c)" rnd]
  show "\<exists>options'. reqInterceptor (config (sdkConfig c)) rnd (Some options) = Inr options' \<and>
           header options' ''Authorization'' = Some (''Bearer '' @ apiKey c) \<and>
           header options' ''Stripe-Version'' =
             Some (case apiVersion c of None \<Rightarrow> defaultApiVersion
                   | Some v \<Rightarrow> if v = [] then defaultApiVersion else v) \<and>
           header options' ''Idempotency-Key'' \<noteq> None"
    unfolding v k by auto
qed

theorem reqInterceptor_sets_headers_witness:
  "path example_options = Some ''/v2/core/events'' \<and>
   (\<exists>options'. reqInterceptor (config (sdkConfig example_config)) 0 (Some example_options)
        = Inr options' \<and>
      header options' ''Authorization'' = Some ''Bearer sk_test_mockApiKey'' \<and>
      header options' ''Stripe-Version'' = Some ''2023-10-16'' \<and>
      header options' ''Idempotency-Key'' \<noteq> None)"
  using reqInterceptor_sets_headers
    [OF example_path, of "config (sdkConfig example_config)" 0 example_config]
  by (simp add: example_path example_config_def sdkConfig_def or_string_def)

text \<open>
  C9. Whenever the interceptor returns, a header of the caller whose name is none of
  \<open>Authorization\<close>, \<open>Stripe-Version\<close>, \<open>Idempotency-Key\<close>, \<open>Content-Type\<close> keeps its value,
  and the returned options differ from the given ones in the \<open>headers\<close> and \<open>contentType\<close>
  fields at most. The earlier revision changes the \<open>headers\<close> field only.
\<close>

theorem reqInterceptor_frame:
  assumes "path options = Some p"
  shows "(\<exists>options'. reqInterceptor cfg rnd (Some options) = Inr options' \<and>
           (\<forall>name. name \<notin> {''Authorization'', ''Stripe-Version'', ''Idempotency-Key'',
                             ''Content-Type''} \<longrightarrow>
                   header options' name = header options name) \<and>
           options'\<lparr>headers := headers options, contentType := contentType options\<rparr>
             = options) \<and>
         (\<exists>options'. reqInterceptor_url cfg rnd options (Some p) = Inr options' \<and>
           (\<forall>name. name \<notin> {''Authorization'', ''Stripe-Version'', ''Idempotency-Key'',
                             ''Content-Type''} \<longrightarrow>
                   header options' name = header options name) \<and>
           options'\<lparr>headers := headers options\<rparr> = options)"
  using assms
  by (simp add: reqInterceptor_Some reqInterceptor_url_Some header_def spread_def)

theorem reqInterceptor_frame_witness:
  "path example_options = Some ''/v2/core/events'' \<and>
   (\<exists>options'. reqInterceptor (config (sdkConfig example_config)) 0 (Some example_options)
        = Inr options' \<and>
      header options' ''X-Trace'' = Some ''t1'' \<and>
      path options' = Some ''/v2/core/events'')"
proof -
  from reqInterceptor_frame [OF example_path, of "config (sdkConfig example_config)" 0]
  obtain options' where
    r: "reqInterceptor (config (sdkConfig example_config)) 0 (Some example_options) = Inr options'"
    and h: "\<forall>name. name \<notin> {''Authorization'', ''Stripe-Version'', ''Idempotency-Key'',
                             ''Content-Type''} \<longrightarrow>
                   header options' name = header example_options name"
    and f: "options'\<lparr>headers := headers example_options,
                     contentType := contentType example_options\<rparr> = example_options"
    by blast
  from h have "header options' ''X-Trace'' = header example_options ''X-Trace''"
    by simp
  then have "header options' ''X-Trace'' = Some ''t1''"
    by (simp add: header_def spread_def example_options_def)
  moreover from f have "path options' = path example_options"
    by (metis options.select_convs(1) options.surjective options.update_convs(2)
        options.update_convs(3))
  ultimately show ?thesis using r by (simp add: example_path)
qed

subsection \<open>The configuration\<close>

text \<open>
  C6. The \<open>validateStatus\<close> predicate of the configuration that \<open>stripeSdk\<close> builds holds of
  a status exactly when the status is at least 200 and below 500, whatever the caller's
  configuration; so no status below 200 and no status from 500 on is accepted.
\<close>

theorem validateStatus_range:
  "validateStatus (sdkConfig cfg) s = (200 \<le> s \<and> s < 500)"
  by (simp add: sdkConfig_def)

text \<open>
  C7. When the caller omits \<open>timeout\<close> and \<open>maxRetries\<close>, the configuration built has
  timeout 10000 and maxRetries 0; when the caller omits \<open>endpoint\<close>, its base URL (and the
  endpoint of the inner context) is \<open>https://api.stripe.com\<close>.
\<close>

theorem sdkConfig_defaults:
  assumes "timeout cfg = None" and "maxRetries cfg = None"
  shows "ctx_timeout (config (sdkConfig cfg)) = Num 10000 \<and>
         sdk_maxRetries (sdkConfig cfg) = Num 0 \<and>
         (endpoint cfg = None \<longrightarrow>
            baseUrl (sdkConfig cfg) = ''https://api.stripe.com'' \<and>
            ctx_endpoint (config (sdkConfig cfg)) = ''https://api.stripe.com'')"
  using assms
  by (simp add: sdkConfig_def or_number_def or_string_def nullish_def defaultEndpoint_def)

theorem sdkConfig_defaults_witness:
  "timeout example_config = None \<and> maxRetries example_config = None \<and>
   endpoint example_config = None \<and>
   ctx_timeout (config (sdkConfig example_config)) = Num 10000 \<and>
   sdk_maxRetries (sdkConfig example_config) = Num 0 \<and>
   baseUrl (sdkConfig example_config) = ''https://api.stripe.com''"
proof -
  have t: "timeout example_config = None" and m: "maxRetries example_config = None"
    and e: "endpoint example_config = None"
    by (simp_all add: example_config_def)
  from sdkConfig_defaults [OF t m] e t m show ?thesis by simp
qed

text \<open>
  C10. A timeout that is present but falsy (0 or \<open>NaN\<close>), an endpoint that is the empty
  string and an API version that is the empty string are replaced by the defaults, while a
  \<open>maxRetries\<close> that is present is kept as it is, 0 included.
\<close>

theorem sdkConfig_falsy_values:
  "ctx_timeout (config (sdkConfig (cfg\<lparr>timeout := Some (Num 0)\<rparr>))) = Num 10000 \<and>
   ctx_timeout (config (sdkConfig (cfg\<lparr>timeout := Some NaN\<rparr>))) = Num 10000 \<and>
   baseUrl (sdkConfig (cfg\<lparr>endpoint := Some []\<rparr>)) = ''https://api.stripe.com'' \<and>
   ctx_endpoint (config (sdkConfig (cfg\<lparr>endpoint := Some []\<rparr>))) = ''https://api.stripe.com'' \<and>
   ctx_apiVersion (config (sdkConfig (cfg\<lparr>apiVersion := Some []\<rparr>))) = defaultApiVersion \<and>
   sdk_maxRetries (sdkConfig (cfg\<lparr>maxRetries := Some (Num 0)\<rparr>)) = Num 0 \<and>
   sdk_maxRetries (sdkConfig (cfg\<lparr>maxRetries := Some n\<rparr>)) = n"
  by (simp add: sdkConfig_def or_number_def or_string_def nullish_def defaultEndpoint_def)

subsection \<open>The idempotency token\<close>

lemma length_uuid_hex: "length (uuid_hex w) = 32"
  by (simp add: uuid_hex_def)

lemma hex_digit_range: "hex_digit n \<in> set ''0123456789abcdef''"
  unfolding hex_digit_def by (rule nth_mem) simp

lemma set_uuid_hex: "set (uuid_hex w) \<subseteq> set ''0123456789abcdef''"
  unfolding uuid_hex_def using hex_digit_range by auto

lemma uuid_hex_no_hyphen: "c \<in> set (uuid_hex w) \<Longrightarrow> c \<noteq> CHR ''-''"
  using set_uuid_hex [of w] by auto

lemma filter_part_uuid_hex:
  assumes "set xs \<subseteq> set (uuid_hex w)"
  shows "filter (\<lambda>c. c \<noteq> CHR ''-'') xs = xs"
  using assms uuid_hex_no_hyphen [of _ w] by (intro filter_True) blast

lemma take_drop_join: "take n (drop m h) @ drop (m + n) h = drop m h"
  by (metis add.commute append_take_drop_id drop_drop)

lemma uuid_hex_split:
  "take 8 h @ take 4 (drop 8 h) @ take 4 (drop 12 h) @ take 4 (drop 16 h) @ drop 20 h = h"
  using take_drop_join [of 4 16 h] take_drop_join [of 4 12 h] take_drop_join [of 4 8 h]
  by simp

lemma createRequestId_uuid_hex: "createRequestId w = uuid_hex w"
proof -
  have t: "filter (\<lambda>c. c \<noteq> CHR ''-'') (take n (drop m (uuid_hex w))) = take n (drop m (uuid_hex w))"
    for n m
    by (rule filter_part_uuid_hex [of _ w]) (meson set_drop_subset set_take_subset subset_trans)
  have d: "filter (\<lambda>c. c \<noteq> CHR ''-'') (drop m (uuid_hex w)) = drop m (uuid_hex w)" for m
    by (rule filter_part_uuid_hex [of _ w]) (rule set_drop_subset)
  have t0: "filter (\<lambda>c. c \<noteq> CHR ''-'') (take n (uuid_hex w)) = take n (uuid_hex w)" for n
    by (rule filter_part_uuid_hex [of _ w]) (rule set_take_subset)
  show ?thesis
    by (simp add: createRequestId_def randomUUID_def Let_def t d t0 uuid_hex_split)
qed

lemma length_randomUUID: "length (randomUUID w) = 36"
  by (simp add: randomUUID_def Let_def length_uuid_hex)

lemma randomUUID_version: "randomUUID w ! 14 = CHR ''4''"
proof -
  have "uuid_hex w ! 12 = CHR ''4''"
    by (simp add: uuid_hex_def uuid_nibble_def hex_digit_def)
  then show ?thesis
    by (simp add: randomUUID_def Let_def nth_append length_uuid_hex)
qed

lemma randomUUID_hyphens:
  "length (filter (\<lambda>c. c = CHR ''-'') (randomUUID w)) = 4"
proof -
  have n: "filter (\<lambda>c. c = CHR ''-'') xs = []" if "set xs \<subseteq> set (uuid_hex w)" for xs
    using that uuid_hex_no_hyphen [of _ w] by (auto simp: filter_empty_conv)
  have "filter (\<lambda>c. c = CHR ''-'') (take n (drop m (uuid_hex w))) = []" for n m
    by (rule n) (meson set_drop_subset set_take_subset subset_trans)
  moreover have "filter (\<lambda>c. c = CHR ''-'') (drop m (uuid_hex w)) = []" for m
    by (rule n) (rule set_drop_subset)
  moreover have "filter (\<lambda>c. c = CHR ''-'') (take n (uuid_hex w)) = []" for n
    by (rule n) (rule set_take_subset)
  ultimately show ?thesis
    by (simp add: randomUUID_def Let_def)
qed

text \<open>
  C5. The token that \<open>createRequestId\<close> makes from the bits drawn is the generated UUID with
  its hyphens deleted. That UUID has 36 characters, four of them hyphens, and the version
  digit 4; the token has 32 characters, each a lowercase hexadecimal digit, and none a
  hyphen. The interceptor puts this token into the \<open>Idempotency-Key\<close> header.
\<close>

theorem createRequestId_hex32:
  "createRequestId w = filter (\<lambda>c. c \<noteq> CHR ''-'') (randomUUID w) \<and>
   length (randomUUID w) = 36 \<and>
   length (filter (\<lambda>c. c = CHR ''-'') (randomUUID w)) = 4 \<and>
   randomUUID w ! 14 = CHR ''4'' \<and>
   length (createRequestId w) = 32 \<and>
   set (createRequestId w) \<subseteq> set ''0123456789abcdef'' \<and>
   CHR ''-'' \<notin> set (createRequestId w)"
proof -
  have a: "createRequestId w = filter (\<lambda>c. c \<noteq> CHR ''-'') (randomUUID w)"
    by (simp only: createRequestId_def)
  have b: "length (createRequestId w) = 32"
    by (simp only: createRequestId_uuid_hex length_uuid_hex)
  have c: "set (createRequestId w) \<subseteq> set ''0123456789abcdef''"
    by (simp only: createRequestId_uuid_hex set_uuid_hex)
  have d: "CHR ''-'' \<notin> set (createRequestId w)"
    using uuid_hex_no_hyphen [of "CHR ''-''" w] by (auto simp only: createRequestId_uuid_hex)
  from a b c d length_randomUUID [of w] randomUUID_hyphens [of w] randomUUID_version [of w]
  show ?thesis by (intro conjI)
qed

subsection \<open>The pagination helper\<close>

lemma URL_new_empty: "URL_new [] = Inl TypeError"
  by (simp add: URL_new_def url_trim_def parse_scheme_def)

lemma URL_new_example:
  "URL_new ''https://api.example.com/v2/events?page_token=abc123'' =
     Inr \<lparr> scheme = ''https'', rest = ''//api.example.com/v2/events'',
           query = Some ''page_token=abc123'', fragment = None \<rparr>"
  by code_simp

lemma searchParams_get_example:
  "searchParams_get
     \<lparr> scheme = ''https'', rest = ''//api.example.com/v2/events'',
       query = Some ''page_token=abc123'', fragment = None \<rparr> ''page_token'' = Some ''abc123''"
  by code_simp

lemma URL_new_not_a_url: "URL_new ''not a url'' = Inl TypeError"
  by code_simp

text \<open>
  C2. Whatever the platform's parser does: a missing URL gives no token; a string that the
  parser rejects gives no token; a non-empty string that it accepts gives what
  \<open>searchParams.get\<close> returns for \<open>page_token\<close>, so the token if the parameter is there and
  nothing if it is not; and on every input the function returns, it never throws. With the
  URL parser as modelled here, every string that parses gives what \<open>searchParams.get\<close>
  returns, \<open>https://api.example.com/v2/events?page_token=abc123\<close> gives \<open>abc123\<close>, and
  \<open>null\<close> and \<open>not a url\<close> give nothing.
\<close>

theorem extractPageToken_spec:
  "extractPageToken parse get None = Inr None \<and>
   (parse s = Inl e \<longrightarrow> extractPageToken parse get (Some s) = Inr None) \<and>
   (t \<noteq> [] \<longrightarrow> parse t = Inr u \<longrightarrow>
      extractPageToken parse get (Some t) = Inr (get u ''page_token'')) \<and>
   (\<exists>r. extractPageToken parse get url = Inr r) \<and>
   (URL_new t' = Inr u' \<longrightarrow>
      extractPageToken URL_new searchParams_get (Some t') =
        Inr (searchParams_get u' ''page_token'')) \<and>
   extractPageToken URL_new searchParams_get
     (Some ''https://api.example.com/v2/events?page_token=abc123'') = Inr (Some ''abc123'') \<and>
   extractPageToken URL_new searchParams_get None = Inr None \<and>
   extractPageToken URL_new searchParams_get (Some ''not a url'') = Inr None"
proof -
  have total: "\<exists>r. extractPageToken parse get url = Inr r"
    by (simp add: extractPageToken_def split: option.split sum.split)
  have parsed: "URL_new t' = Inr u' \<longrightarrow>
      extractPageToken URL_new searchParams_get (Some t') =
        Inr (searchParams_get u' ''page_token'')"
    using URL_new_empty by (auto simp: extractPageToken_def)
  have example: "extractPageToken URL_new searchParams_get
     (Some ''https://api.example.com/v2/events?page_token=abc123'') = Inr (Some ''abc123'')"
    by (simp add: extractPageToken_def URL_new_example searchParams_get_example)
  have bad: "extractPageToken URL_new searchParams_get (Some ''not a url'') = Inr None"
    by (simp add: extractPageToken_def URL_new_not_a_url)
  show ?thesis
    using total parsed example bad by (simp add: extractPageToken_def)
qed

theorem extractPageToken_spec_witness:
  "URL_new ''not a url'' = Inl TypeError \<and>
   extractPageToken URL_new searchParams_get (Some ''not a url'') = Inr None \<and>
   URL_new ''https://api.example.com/v2/events?page_token=abc123'' =
     Inr \<lparr> scheme = ''https'', rest = ''//api.example.com/v2/events'',
           query = Some ''page_token=abc123'', fragment = None \<rparr> \<and>
   extractPageToken URL_new searchParams_get
     (Some ''https://api.example.com/v2/events?page_token=abc123'') = Inr (Some ''abc123'')"
  using extractPageToken_spec
    [of URL_new searchParams_get "''not a url''" TypeError
        "''https://api.example.com/v2/events?page_token=abc123''"
        "\<lparr> scheme = ''https'', rest = ''//api.example.com/v2/events'',
           query = Some ''page_token=abc123'', fragment = None \<rparr>"
        None
        "''https://api.example.com/v2/events?page_token=abc123''"
        "\<lparr> scheme = ''https'', rest = ''//api.example.com/v2/events'',
           query = Some ''page_token=abc123'', fragment = None \<rparr>"]
  by (simp only: URL_new_not_a_url URL_new_example searchParams_get_example)

subsection \<open>The dispatcher\<close>

text \<open>
  The spec's own example of the retry loop: with \<open>maxRetries = 2\<close> and a transport that
  fails twice with a retryable status and then succeeds, the invocation succeeds after
  exactly three transport calls.
\<close>

lemma dispatch_two_retries:
  "dispatch \<lparr> rp_maxRetries = 2, baseDelay = 100, multiplier = 2,
              retryableStatusPredicate = (\<lambda>s. 500 \<le> s) \<rparr>
     (\<lambda>s. 200 \<le> s \<and> s < 500)
     (\<lambda>k. if k < 2 then Response 503 ''busy'' else Response 200 ''ok'')
   = \<lparr> final = SUCCEEDED 200 ''ok'', transport_calls = 3, delays = [100, 200] \<rparr>"
  by (simp add: dispatch_def retryable_def)

text \<open>
  C8. With \<open>maxRetries = 0\<close>, an invocation whose first transport call is not delivered (a
  transport failure, a timeout, or a status that the \<open>validateStatus\<close> predicate rejects)
  ends in \<open>FAILED\<close> after exactly one transport call and without any retry delay.
\<close>

theorem dispatch_no_retry:
  assumes "rp_maxRetries pol = 0" and "\<not> delivered valid (transport 0)"
  shows "transport_calls (dispatch pol valid transport) = 1 \<and>
         is_FAILED (final (dispatch pol valid transport)) \<and>
         final (dispatch pol valid transport) = FAILED (last_response (transport 0)) \<and>
         delays (dispatch pol valid transport) = []"
  using assms
  by (cases "transport 0")
    (simp_all add: dispatch_def delivered_def is_FAILED_def last_response_def)

theorem dispatch_no_retry_witness:
  "rp_maxRetries \<lparr> rp_maxRetries = 0, baseDelay = 100, multiplier = 2,
                   retryableStatusPredicate = (\<lambda>s. 500 \<le> s) \<rparr> = 0 \<and>
   \<not> delivered (validateStatus (sdkConfig example_config)) (Response 503 ''busy'') \<and>
   transport_calls
     (dispatch \<lparr> rp_maxRetries = 0, baseDelay = 100, multiplier = 2,
                 retryableStatusPredicate = (\<lambda>s. 500 \<le> s) \<rparr>
        (validateStatus (sdkConfig example_config)) (\<lambda>k. Response 503 ''busy'')) = 1 \<and>
   final
     (dispatch \<lparr> rp_maxRetries = 0, baseDelay = 100, multiplier = 2,
                 retryableStatusPredicate = (\<lambda>s. 500 \<le> s) \<rparr>
        (validateStatus (sdkConfig example_config)) (\<lambda>k. Response 503 ''busy''))
     = FAILED (Some (503, ''busy''))"
proof -
  have v: "\<not> delivered (validateStatus (sdkConfig example_config)) (Response 503 ''busy'')"
    by (simp add: delivered_def sdkConfig_def)
  have m: "rp_maxRetries \<lparr> rp_maxRetries = 0, baseDelay = 100, multiplier = 2,
                   retryableStatusPredicate = (\<lambda>s. 500 \<le> s) \<rparr> = 0"
    by simp
  from dispatch_no_retry [OF m, of "validateStatus (sdkConfig example_config)"
      "\<lambda>k. Response 503 ''busy''", OF v] v
  show ?thesis by (simp add: last_response_def)
qed

end
